theory Spec2Isabelle
  imports Complex_Main "HOL-Library.Sublist"
begin

section \<open>Floating-point values\<close>

text \<open>
  Both programs compute on NumPy/pandas \<open>float64\<close> values. A value is modelled as
  one of: not-a-number, minus infinity, a finite number, plus infinity. The operations
  below compute finite results exactly, and there is a single zero. The special values
  follow IEEE 754 as NumPy applies it: a division by zero does not raise, it yields an
  infinity, or \<open>NaN\<close> for \<open>0/0\<close>; every comparison with \<open>NaN\<close> is false.
  Where a property depends on the last bit of a result (the exit target of the
  shortlist), every operation is followed by the rounding \<open>rnd\<close> defined below;
  elsewhere rounding and overflow are left out.
\<close>

datatype fl = NaN | NInf | Fin real | PInf

fun fneg :: "fl \<Rightarrow> fl" where
  "fneg NaN = NaN"
| "fneg NInf = PInf"
| "fneg (Fin a) = Fin (- a)"
| "fneg PInf = NInf"

fun fadd :: "fl \<Rightarrow> fl \<Rightarrow> fl" where
  "fadd NaN y = NaN"
| "fadd x NaN = NaN"
| "fadd (Fin a) (Fin b) = Fin (a + b)"
| "fadd (Fin a) y = y"
| "fadd x (Fin b) = x"
| "fadd PInf PInf = PInf"
| "fadd NInf NInf = NInf"
| "fadd PInf NInf = NaN"
| "fadd NInf PInf = NaN"

definition fsub :: "fl \<Rightarrow> fl \<Rightarrow> fl" where
  "fsub x y = fadd x (fneg y)"

fun fmul :: "fl \<Rightarrow> fl \<Rightarrow> fl" where
  "fmul NaN y = NaN"
| "fmul x NaN = NaN"
| "fmul (Fin a) (Fin b) = Fin (a * b)"
| "fmul (Fin a) PInf = (if a = 0 then NaN else if 0 < a then PInf else NInf)"
| "fmul (Fin a) NInf = (if a = 0 then NaN else if 0 < a then NInf else PInf)"
| "fmul PInf (Fin b) = (if b = 0 then NaN else if 0 < b then PInf else NInf)"
| "fmul NInf (Fin b) = (if b = 0 then NaN else if 0 < b then NInf else PInf)"
| "fmul PInf PInf = PInf"
| "fmul NInf NInf = PInf"
| "fmul PInf NInf = NInf"
| "fmul NInf PInf = NInf"

fun fdiv :: "fl \<Rightarrow> fl \<Rightarrow> fl" where
  "fdiv NaN y = NaN"
| "fdiv x NaN = NaN"
| "fdiv (Fin a) (Fin b) =
     (if b = 0 then (if a = 0 then NaN else if 0 < a then PInf else NInf)
      else Fin (a / b))"
| "fdiv (Fin a) y = Fin 0"
| "fdiv PInf (Fin b) = (if 0 \<le> b then PInf else NInf)"
| "fdiv NInf (Fin b) = (if 0 \<le> b then NInf else PInf)"
| "fdiv x y = NaN"

fun flt :: "fl \<Rightarrow> fl \<Rightarrow> bool" where
  "flt NaN y = False"
| "flt x NaN = False"
| "flt (Fin a) (Fin b) = (a < b)"
| "flt x NInf = False"
| "flt PInf y = False"
| "flt NInf y = True"
| "flt x PInf = True"

fun fle :: "fl \<Rightarrow> fl \<Rightarrow> bool" where
  "fle NaN y = False"
| "fle x NaN = False"
| "fle (Fin a) (Fin b) = (a \<le> b)"
| "fle NInf y = True"
| "fle x PInf = True"
| "fle x y = False"

fun fabs :: "fl \<Rightarrow> fl" where
  "fabs NaN = NaN"
| "fabs NInf = PInf"
| "fabs (Fin a) = Fin \<bar>a\<bar>"
| "fabs PInf = PInf"

fun fsqrt :: "fl \<Rightarrow> fl" where
  "fsqrt NaN = NaN"
| "fsqrt NInf = NaN"
| "fsqrt (Fin a) = (if a < 0 then NaN else Fin (sqrt a))"
| "fsqrt PInf = PInf"

text \<open>
  \<open>x ** y\<close> for a finite exponent \<open>y\<close> (C \<open>pow\<close>, as NumPy calls it): anything to
  the power 0 is 1; a negative base has a real power only for an integer exponent.
\<close>

fun fpow :: "fl \<Rightarrow> real \<Rightarrow> fl" where
  "fpow NaN y = (if y = 0 then Fin 1 else NaN)"
| "fpow (Fin a) y =
     (if y = 0 then Fin 1
      else if 0 < a then Fin (a powr y)
      else if a = 0 then (if 0 < y then Fin 0 else PInf)
      else if y \<in> \<int> then Fin (a powi \<lfloor>y\<rfloor>)
      else NaN)"
| "fpow PInf y = (if y = 0 then Fin 1 else if 0 < y then PInf else Fin 0)"
| "fpow NInf y =
     (if y = 0 then Fin 1
      else if y < 0 then Fin 0
      else if y \<in> \<int> \<and> odd \<lfloor>y\<rfloor> then NInf else PInf)"

text \<open>Python's built-in \<open>min(a, b)\<close>: \<open>b\<close> when \<open>b < a\<close>, else \<open>a\<close>.\<close>

definition py_min :: "fl \<Rightarrow> fl \<Rightarrow> fl" where
  "py_min a b = (if flt b a then b else a)"

text \<open>Python's built-in \<open>max(a, b)\<close>: \<open>b\<close> when \<open>b > a\<close>, else \<open>a\<close>.\<close>

definition py_max :: "fl \<Rightarrow> fl \<Rightarrow> fl" where
  "py_max a b = (if flt a b then b else a)"

subsection \<open>Rounding to float64\<close>

text \<open>Rounding to the nearest integer, a tie going to the even one.\<close>

definition rne :: "real \<Rightarrow> int" where
  "rne y =
     (let f = \<lfloor>y\<rfloor>; r = y - of_int f
      in if r < 1 / 2 then f else if 1 / 2 < r then f + 1 else if even f then f else f + 1)"

text \<open>
  The spacing of the float64 numbers around \<open>x\<close>: 53 significant bits, and the
  fixed spacing \<open>2^-1074\<close> of the subnormal numbers below \<open>2^-1022\<close>.
\<close>

definition ulp64 :: "real \<Rightarrow> real" where
  "ulp64 x = 2 powi (max \<lfloor>log 2 \<bar>x\<bar>\<rfloor> (- 1022) - 52)"

text \<open>The float64 number nearest to \<open>x\<close> (round to nearest, ties to even).\<close>

definition fl64 :: "real \<Rightarrow> real" where
  "fl64 x = (if x = 0 then 0 else of_int (rne (x / ulp64 x)) * ulp64 x)"

text \<open>
  The float64 result of an operation whose exact result is \<open>x\<close>: the nearest float64
  number, or an infinity when that is beyond the largest one.
\<close>

definition rnd :: "fl \<Rightarrow> fl" where
  "rnd x =
     (case x of
        Fin a \<Rightarrow>
          (if 2 ^ 1024 \<le> fl64 a then PInf
           else if fl64 a \<le> - (2 ^ 1024) then NInf
           else Fin (fl64 a))
      | _ \<Rightarrow> x)"

text \<open>
  The number of hundredths that the format \<open>.2f\<close> prints for a float64 number: its
  exact value, rounded to two decimals.
\<close>

definition hundredths :: "real \<Rightarrow> int" where
  "hundredths x = rne (x * 100)"

section \<open>Exceptions\<close>

datatype py_error = KeyError | IndexError | UnboundLocalError

text \<open>\<open>s.iloc[i]\<close>: a negative position counts from the end; out of range raises.\<close>

definition iloc :: "'a list \<Rightarrow> int \<Rightarrow> py_error + 'a" where
  "iloc xs i =
     (if 0 \<le> i \<and> i < int (length xs) then Inr (xs ! nat i)
      else if i < 0 \<and> - int (length xs) \<le> i then Inr (xs ! nat (int (length xs) + i))
      else Inl IndexError)"

section \<open>Series\<close>

text \<open>A pandas Series of floats, by position.\<close>

type_synonym series = "fl list"

text \<open>\<open>s.diff()\<close>: the first value has no predecessor and is \<open>NaN\<close>.\<close>

fun diff :: "series \<Rightarrow> series" where
  "diff [] = []"
| "diff (x # xs) = NaN # map2 fsub xs (x # xs)"

text \<open>\<open>s.shift()\<close>: every value moves one position down, the first is \<open>NaN\<close>.\<close>

fun shift :: "series \<Rightarrow> series" where
  "shift [] = []"
| "shift (x # xs) = NaN # butlast (x # xs)"

primrec fsum :: "fl list \<Rightarrow> fl" where
  "fsum [] = Fin 0"
| "fsum (x # xs) = fadd x (fsum xs)"

definition fmean :: "fl list \<Rightarrow> fl" where
  "fmean win = fdiv (fsum win) (Fin (real (length win)))"

text \<open>The sample standard deviation (pandas' default \<open>ddof=1\<close>).\<close>

definition fstd :: "fl list \<Rightarrow> fl" where
  "fstd win =
     fsqrt (fdiv (fsum (map (\<lambda>x. fmul (fsub x (fmean win)) (fsub x (fmean win))) win))
                 (Fin (real (length win) - 1)))"

text \<open>
  \<open>s.rolling(w).agg()\<close> with the default \<open>min_periods = w\<close>: position \<open>i\<close> aggregates
  the \<open>w\<close> values ending at \<open>i\<close>; the first \<open>w - 1\<close> positions are \<open>NaN\<close>. A \<open>NaN\<close>
  inside the window makes the aggregate \<open>NaN\<close>, which \<open>fsum\<close> does by itself.
  pandas updates the aggregate from window to window; each window is aggregated afresh
  here, which gives the same value for windows of finite numbers and \<open>NaN\<close>.
\<close>

definition rolling :: "nat \<Rightarrow> (fl list \<Rightarrow> fl) \<Rightarrow> series \<Rightarrow> series" where
  "rolling w agg s =
     map (\<lambda>p. if length p < w then NaN else agg (rev (take w (rev p)))) (tl (prefixes s))"

text \<open>The row-wise maximum of \<open>pd.concat([a, b, c], axis=1).max(axis=1)\<close> skips \<open>NaN\<close>.\<close>

definition nanmax :: "fl \<Rightarrow> fl \<Rightarrow> fl" where
  "nanmax a b = (if a = NaN then b else if b = NaN then a else if flt a b then b else a)"

section \<open>Data frames\<close>

text \<open>
  A DataFrame with a flat column index: its number of rows and its columns by name,
  in column order. In a well-formed frame every column has \<open>nrows\<close> values.
\<close>

record frame =
  nrows :: nat
  cols :: "(string \<times> series) list"


definition DataFrame_empty :: frame where
  "DataFrame_empty = \<lparr>nrows = 0, cols = []\<rparr>"

text \<open>\<open>df.empty\<close>: no rows or no columns.\<close>

definition empty :: "frame \<Rightarrow> bool" where
  "empty df = (nrows df = 0 \<or> cols df = [])"

text \<open>\<open>df[c]\<close> raises \<open>KeyError\<close> for a column the frame does not have.\<close>

definition getitem :: "frame \<Rightarrow> string \<Rightarrow> py_error + series" where
  "getitem df c = (case map_of (cols df) c of None \<Rightarrow> Inl KeyError | Some s \<Rightarrow> Inr s)"

text \<open>\<open>df[c] = s\<close> replaces the column \<open>c\<close> where it stands, or appends it.\<close>

fun set_column :: "string \<Rightarrow> series \<Rightarrow> (string \<times> series) list \<Rightarrow> (string \<times> series) list" where
  "set_column c s [] = [(c, s)]"
| "set_column c s ((k, v) # kvs) =
     (if k = c then (c, s) # kvs else (k, v) # set_column c s kvs)"

definition setitem :: "frame \<Rightarrow> string \<Rightarrow> series \<Rightarrow> frame" where
  "setitem df c s = df\<lparr>cols := set_column c s (cols df)\<rparr>"

text \<open>\<open>df.dropna()\<close> keeps the rows in which no column is \<open>NaN\<close>, as a new frame.\<close>

definition row_notna :: "frame \<Rightarrow> nat \<Rightarrow> bool" where
  "row_notna df i = list_all (\<lambda>(c, s). s ! i \<noteq> NaN) (cols df)"

definition dropna :: "frame \<Rightarrow> frame" where
  "dropna df =
     (let keep = filter (row_notna df) [0..<nrows df]
      in \<lparr>nrows = length keep, cols = map (\<lambda>(c, s). (c, map (\<lambda>i. s ! i) keep)) (cols df)\<rparr>)"

section \<open>quant.py: the indicator engine\<close>

text \<open>Lines 18 to 21: the 14-period averages of gains and of losses, and the RSI.\<close>

definition avg_gain :: "series \<Rightarrow> series" where
  "avg_gain close =
     rolling 14 fmean (map (\<lambda>d. if flt (Fin 0) d then d else Fin 0) (diff close))"

definition avg_loss :: "series \<Rightarrow> series" where
  "avg_loss close =
     rolling 14 fmean (map (\<lambda>d. fneg (if flt d (Fin 0) then d else Fin 0)) (diff close))"

definition rsi_of :: "fl \<Rightarrow> fl \<Rightarrow> fl" where
  "rsi_of gain loss = fsub (Fin 100) (fdiv (Fin 100) (fadd (Fin 1) (fdiv gain loss)))"

definition rsi :: "series \<Rightarrow> series" where
  "rsi close = map2 rsi_of (avg_gain close) (avg_loss close)"

text \<open>Lines 26 to 29: the true range of each row, and its 14-period average.\<close>

definition true_range :: "series \<Rightarrow> series \<Rightarrow> series \<Rightarrow> series" where
  "true_range high low close =
     (let high_low = map2 fsub high low;
          high_close = map fabs (map2 fsub high (shift close));
          low_close = map fabs (map2 fsub low (shift close))
      in map2 nanmax (map2 nanmax high_low high_close) low_close)"

text \<open>
  \<open>add_indicators(df)\<close> assigns six columns to the frame object it was given and
  returns \<open>df.dropna()\<close>, a new frame. The model returns the value (or the exception
  raised) together with the caller's frame as the call leaves it. The \<open>Close\<close>
  column is read once: no assignment in between touches it.
\<close>

definition add_indicators :: "frame \<Rightarrow> (py_error + frame) \<times> frame" where
  "add_indicators df =
     (if empty df \<or> nrows df < 20 then (Inr DataFrame_empty, df)
      else case getitem df ''Close'' of
        Inl e \<Rightarrow> (Inl e, df)
      | Inr close \<Rightarrow>
         (let df1 = setitem df ''RSI'' (rsi close);
              sma20 = rolling 20 fmean close;
              df2 = setitem df1 ''SMA20'' sma20;
              std = rolling 20 fstd close;
              df3 = setitem df2 ''Std'' std;
              df4 = setitem df3 ''Lower'' (map2 fsub sma20 (map (fmul (Fin 2)) std));
              df5 = setitem df4 ''Upper'' (map2 fadd sma20 (map (fmul (Fin (3/2))) std))
          in case getitem df5 ''High'' of
               Inl e \<Rightarrow> (Inl e, df5)
             | Inr high \<Rightarrow>
                (case getitem df5 ''Low'' of
                   Inl e \<Rightarrow> (Inl e, df5)
                 | Inr low \<Rightarrow>
                    (let df6 = setitem df5 ''ATR'' (rolling 14 fmean (true_range high low close))
                     in (Inr (dropna df6), df6)))))"

section \<open>quant.py: the regime filter\<close>

text \<open>
  The expression of lines 47 and 57,
  \<open>df['Close'].iloc[-1] > df['Close'].rolling(50).mean().iloc[-1]\<close>.
\<close>

definition above_sma50 :: "frame \<Rightarrow> py_error + bool" where
  "above_sma50 df =
     (case getitem df ''Close'' of
        Inl e \<Rightarrow> Inl e
      | Inr close \<Rightarrow>
         (case iloc close (- 1) of
            Inl e \<Rightarrow> Inl e
          | Inr latest \<Rightarrow>
             (case iloc (rolling 50 fmean close) (- 1) of
                Inl e \<Rightarrow> Inl e
              | Inr sma \<Rightarrow> Inr (flt sma latest))))"

text \<open>Line 47: the broad market index, with no guard around the expression.\<close>

definition market_bullish :: "frame \<Rightarrow> py_error + bool" where
  "market_bullish nifty = above_sma50 nifty"

text \<open>
  Lines 51 to 57: the loop over the sector tickers, each with the frame its download
  returned. Tickers that are not strings are skipped by line 53 and are left out of the
  list; an empty frame leaves the sector out of the map.
\<close>

fun sector_bullish_map ::
  "(string \<times> frame) list \<Rightarrow> (string \<rightharpoonup> bool) \<Rightarrow> py_error + (string \<rightharpoonup> bool)" where
  "sector_bullish_map [] m = Inr m"
| "sector_bullish_map ((sector_ticker, sdf) # rest) m =
     (if sector_ticker = ''nan'' then sector_bullish_map rest m
      else if \<not> empty sdf then
        (case above_sma50 sdf of
           Inl e \<Rightarrow> Inl e
         | Inr b \<Rightarrow> sector_bullish_map rest (m(sector_ticker \<mapsto> b)))
      else sector_bullish_map rest m)"

text \<open>Line 75: \<open>sector_bullish_map.get(sector_idx, False)\<close>.\<close>

definition is_sec_bull :: "(string \<rightharpoonup> bool) \<Rightarrow> string \<Rightarrow> bool" where
  "is_sec_bull m sector_idx = (case m sector_idx of None \<Rightarrow> False | Some b \<Rightarrow> b)"

section \<open>quant.py: the ranked shortlist\<close>

record scan_row =
  Symbol :: string
  RSI :: fl
  Dist :: fl
  Price :: fl
  S_Bull :: bool
  RS_Trend :: fl

text \<open>
  \<open>sort_values(by="RSI")\<close> sorts ascending and puts \<open>NaN\<close> last. pandas' default
  sort is not stable; the model inserts in order, which fixes one of the orders pandas
  may give to rows of equal RSI.
\<close>

definition rsi_before :: "fl \<Rightarrow> fl \<Rightarrow> bool" where
  "rsi_before a b = (b = NaN \<or> fle a b)"

fun insert_by_rsi :: "scan_row \<Rightarrow> scan_row list \<Rightarrow> scan_row list" where
  "insert_by_rsi r [] = [r]"
| "insert_by_rsi r (x # xs) =
     (if rsi_before (RSI r) (RSI x) then r # x # xs else x # insert_by_rsi r xs)"

definition sort_values_rsi :: "scan_row list \<Rightarrow> scan_row list" where
  "sort_values_rsi rs = foldr insert_by_rsi rs []"

text \<open>
  Line 90: \<open>pd.DataFrame(scanner_results).sort_values(by="RSI").head(10)\<close>. A frame
  built from an empty list has no column \<open>RSI\<close>, and sorting by it raises \<open>KeyError\<close>.
\<close>

definition s_df :: "scan_row list \<Rightarrow> py_error + scan_row list" where
  "s_df scanner_results =
     (if scanner_results = [] then Inl KeyError
      else Inr (take 10 (sort_values_rsi scanner_results)))"

text \<open>
  Line 99: \<open>s['Price'] * (1 + (abs(s['Dist'])/100) + 0.03)\<close>, in float64: the
  division, the two additions and the product are each rounded, and the literal
  \<open>0.03\<close> is the float64 number nearest to 3/100.
\<close>

definition target_price :: "scan_row \<Rightarrow> fl" where
  "target_price s =
     rnd (fmul (Price s)
       (rnd (fadd (rnd (fadd (Fin 1) (rnd (fdiv (fabs (Dist s)) (Fin 100)))))
                  (rnd (Fin (3 / 100))))))"

section \<open>wb.py: the valuation\<close>

text \<open>
  \<open>np.polyfit(x, y, 1)\<close> with \<open>x = 0, 1, ..., n - 1\<close>: the slope and the intercept of
  the least-squares line, in closed form. The earnings are finite numbers (\<open>dropna\<close>
  has removed the missing ones).
\<close>

definition polyfit1 :: "real list \<Rightarrow> real \<times> real" where
  "polyfit1 y =
     (let n = real (length y);
          x = map real [0..<length y];
          sx = sum_list x;
          sy = sum_list y;
          sxx = sum_list (map (\<lambda>a. a * a) x);
          sxy = sum_list (map2 (*) x y);
          slope = (n * sxy - sx * sy) / (n * sxx - sx * sx)
      in (slope, (sy - slope * sx) / n))"

text \<open>Line 58: the value of the fitted line at the last point, \<open>reg_end\<close>.\<close>

definition reg_end_of :: "real list \<Rightarrow> real" where
  "reg_end_of y =
     (case polyfit1 y of (slope, intercept) \<Rightarrow> slope * real (length y - 1) + intercept)"

text \<open>Lines 57 to 72, from the slope and intercept that \<open>polyfit\<close> returned.\<close>

definition trend_cagr :: "fl \<Rightarrow> fl \<Rightarrow> nat \<Rightarrow> fl" where
  "trend_cagr slope intercept n_points =
     (let reg_start = intercept;
          reg_end = fadd (fmul slope (Fin (real (n_points - 1)))) intercept;
          cagr =
            (if flt (Fin 0) reg_start \<and> flt (Fin 0) reg_end
             then fsub (fpow (fdiv reg_end reg_start) (1 / real (n_points - 1))) (Fin 1)
             else if flt (Fin 0) slope then Fin (5/100)
             else Fin 0)
      in if cagr = NaN then Fin (5/100) else cagr)"

text \<open>Lines 46 to 72: the growth rate of an earnings series.\<close>

definition cagr_of :: "real list \<Rightarrow> fl" where
  "cagr_of y =
     (if 2 \<le> length y
      then (case polyfit1 y of (slope, intercept) \<Rightarrow>
              trend_cagr (Fin slope) (Fin intercept) (length y))
      else Fin (5/100))"

text \<open>
  Lines 90 and 91, the body of the \<open>try\<close>. \<open>end_eps\<close> is the local variable of that
  name: \<open>None\<close> while nothing has been assigned to it, and reading it then raises
  \<open>UnboundLocalError\<close>. The condition of \<open>a if c else b\<close> is evaluated first.
\<close>

definition pe_from_price :: "frame \<Rightarrow> real option \<Rightarrow> py_error + fl" where
  "pe_from_price hist end_eps =
     (case getitem hist ''Close'' of
        Inl e \<Rightarrow> Inl e
      | Inr close \<Rightarrow>
         (case iloc close (- 1) of
            Inl e \<Rightarrow> Inl e
          | Inr curr_price \<Rightarrow>
             (case end_eps of
                None \<Rightarrow> Inl UnboundLocalError
              | Some e \<Rightarrow> Inr (if 0 < e then fdiv curr_price (Fin e) else Fin 15))))"

text \<open>Lines 76 and 88 to 93: the bare \<open>except\<close> turns every exception into 15.0.\<close>

definition current_pe_of :: "fl option \<Rightarrow> frame \<Rightarrow> real option \<Rightarrow> fl" where
  "current_pe_of trailingPE hist end_eps =
     (case trailingPE of
        Some pe \<Rightarrow> pe
      | None \<Rightarrow> (case pe_from_price hist end_eps of Inl e \<Rightarrow> Fin 15 | Inr pe \<Rightarrow> pe))"

text \<open>
  Lines 98 to 111, one round of the loop: the multiples it appends for one earnings
  date. \<open>nearest\<close> stands for \<open>hist.index.get_indexer([date], method='nearest')[0]\<close>:
  a position, \<open>-1\<close> for none, or an exception. Every exception skips the year.
\<close>

definition pe_at :: "frame \<Rightarrow> ('d \<Rightarrow> py_error + int) \<Rightarrow> 'd \<times> real \<Rightarrow> fl list" where
  "pe_at hist nearest = (\<lambda>(date, eps_val).
     if eps_val \<le> 0 then []
     else (case nearest date of
        Inl e \<Rightarrow> []
      | Inr idx \<Rightarrow>
         if idx \<noteq> - 1 then
           (case getitem hist ''Close'' of
              Inl e \<Rightarrow> []
            | Inr close \<Rightarrow>
               (case iloc close idx of
                  Inl e \<Rightarrow> []
                | Inr price_at_date \<Rightarrow>
                   (let pe = fdiv price_at_date (Fin eps_val)
                    in if flt (Fin 0) pe \<and> flt pe (Fin 150) then [pe] else [])))
         else []))"

record valuation =
  cagr :: fl
  current_pe :: fl
  pe_ratios :: "fl list"
  avg_pe :: fl
  projected_pe :: fl
  end_eps :: real
  base_eps :: real
  future_eps :: fl
  projected_price :: fl

text \<open>
  \<open>analyze_stock\<close> from line 36 to line 127: the earnings series (sorted, without
  missing values) with its dates, the trailing P/E if the data source has one, and the
  price history. \<open>None\<close> is the return of line 40. When lines 88 to 93 run, nothing
  has been assigned to \<open>end_eps\<close> yet: its assignment is line 124.
\<close>

definition analyze_stock ::
  "('d \<times> real) list \<Rightarrow> fl option \<Rightarrow> frame \<Rightarrow> ('d \<Rightarrow> py_error + int) \<Rightarrow> valuation option" where
  "analyze_stock eps_data trailingPE hist nearest =
     (if length eps_data < 2 then None
      else
        (let cagr = cagr_of (map snd eps_data);
             current_pe = current_pe_of trailingPE hist None;
             pe_ratios = concat (map (pe_at hist nearest) eps_data);
             avg_pe = (if pe_ratios \<noteq> [] then fmean pe_ratios else current_pe);
             projected_pe = py_min current_pe avg_pe;
             projected_pe = (if flt projected_pe (Fin 5) then Fin 5 else projected_pe);
             end_eps = snd (last eps_data);
             base_eps = end_eps;
             future_eps = fmul (Fin base_eps) (fpow (fadd (Fin 1) cagr) 10);
             projected_price = fmul future_eps projected_pe
         in Some \<lparr>cagr = cagr, current_pe = current_pe, pe_ratios = pe_ratios,
                  avg_pe = avg_pe, projected_pe = projected_pe, end_eps = end_eps,
                  base_eps = base_eps, future_eps = future_eps,
                  projected_price = projected_price\<rparr>))"

section \<open>Names and example inputs\<close>

text \<open>The columns that \<open>add_indicators\<close> assigns.\<close>

definition indicator_columns :: "string list" where
  "indicator_columns = [''RSI'', ''SMA20'', ''Std'', ''Lower'', ''Upper'', ''ATR'']"

text \<open>Twenty bars with closes 1 to 20, nineteen such bars, and twenty equal closes.\<close>

definition rising_bars :: frame where
  "rising_bars = \<lparr>nrows = 20, cols =
     [(''High'', map Fin [2, 3, 4, 5, 6, 7, 8, 9, 10, 11, 12, 13, 14, 15, 16, 17, 18, 19, 20, 21]),
      (''Low'', map Fin [0, 1, 2, 3, 4, 5, 6, 7, 8, 9, 10, 11, 12, 13, 14, 15, 16, 17, 18, 19]),
      (''Close'', map Fin [1, 2, 3, 4, 5, 6, 7, 8, 9, 10, 11, 12, 13, 14, 15, 16, 17, 18, 19, 20])]\<rparr>"

definition short_bars :: frame where
  "short_bars = \<lparr>nrows = 19, cols =
     [(''High'', map Fin [2, 3, 4, 5, 6, 7, 8, 9, 10, 11, 12, 13, 14, 15, 16, 17, 18, 19, 20]),
      (''Low'', map Fin [0, 1, 2, 3, 4, 5, 6, 7, 8, 9, 10, 11, 12, 13, 14, 15, 16, 17, 18]),
      (''Close'', map Fin [1, 2, 3, 4, 5, 6, 7, 8, 9, 10, 11, 12, 13, 14, 15, 16, 17, 18, 19])]\<rparr>"


section \<open>Properties of the valuation\<close>

subsection \<open>Growth rate\<close>

lemma fpow_Fin_10: "fpow (Fin a) 10 = Fin (a ^ 10)"
proof -
  have "(10::real) \<in> \<int>" by simp
  moreover have "\<lfloor>10::real\<rfloor> = 10" by simp
  moreover have "0 < a \<Longrightarrow> a powr 10 = a ^ 10"
    using powr_realpow [of a 10] by simp
  ultimately show ?thesis by (simp add: power_int_def)
qed


lemma trend_cagr_Fin:
  assumes "2 \<le> n"
  shows "trend_cagr (Fin m) (Fin c) n =
     (if 0 < c \<and> 0 < m * real (n - 1) + c
      then Fin (((m * real (n - 1) + c) / c) powr (1 / real (n - 1)) - 1)
      else if 0 < m then Fin (5/100) else Fin 0)"
  using assms by (simp add: trend_cagr_def Let_def fsub_def)

lemma cagr_of_Fin: "\<exists>c. cagr_of y = Fin c"
proof -
  have "cagr_of y \<noteq> NaN \<and> cagr_of y \<noteq> PInf \<and> cagr_of y \<noteq> NInf"
    by (cases "polyfit1 y") (simp add: cagr_of_def trend_cagr_Fin)
  then show ?thesis by (cases "cagr_of y") auto
qed



lemma polyfit1_2_1_2: "polyfit1 [2, 1, 2] = (0, 5 / 3)"
  by (simp add: polyfit1_def)

lemma cagr_of_2_1_2: "cagr_of [2, 1, 2] = Fin 0"
  by (simp add: cagr_of_def polyfit1_2_1_2 trend_cagr_def fsub_def)




subsection \<open>Current P/E\<close>

lemma current_pe_of_unbound: "current_pe_of None hist None = Fin 15"
  by (simp add: current_pe_of_def pe_from_price_def split: sum.splits)

lemma analyze_stock_current_pe:
  "2 \<le> length eps_data \<Longrightarrow>
   map_option current_pe (analyze_stock eps_data None hist nearest) = Some (Fin 15)"
  by (simp add: analyze_stock_def Let_def current_pe_of_unbound)

text \<open>
  C2: with no trailing P/E, a latest price of 100 and latest earnings of 5, the claim
  gives a current P/E of 100 / 5 = 20. The code reads \<open>end_eps\<close> on line 91 before
  line 124 assigns it; the \<open>UnboundLocalError\<close> is caught by the bare \<open>except\<close>, and
  the current P/E is 15.
\<close>

theorem fallback_pe_is_15:
  "map_option current_pe
     (analyze_stock [(0::nat, 4), (1, 5)] None \<lparr>nrows = 1, cols = [(''Close'', [Fin 100])]\<rparr>
        (\<lambda>d. Inr 0)) = Some (Fin 15)
   \<and> fdiv (Fin 100) (Fin 5) = Fin 20"
  using analyze_stock_current_pe [of "[(0::nat, 4), (1, 5)]"] by simp

subsection \<open>Projection\<close>

lemma analyze_stock_future_eps:
  assumes "2 \<le> length eps_data" and "cagr_of (map snd eps_data) = Fin c"
  shows "map_option future_eps (analyze_stock eps_data trailingPE hist nearest)
         = Some (Fin (snd (last eps_data) * (1 + c) ^ 10))"
  using assms by (simp add: analyze_stock_def Let_def fpow_Fin_10)

text \<open>
  C3, as stated, fails: the earnings 2, 1, 2 have the flat fitted line \<open>5/3\<close>, so the
  growth rate is 0 and the line ends at \<open>5/3\<close>; the projected earnings are 2, the
  latest reported figure, not \<open>5/3\<close>.
\<close>

theorem projection_base_counterexample:
  "reg_end_of [2, 1, 2] = 5 / 3
   \<and> map_option future_eps
       (analyze_stock [(0::nat, 2), (1, 1), (2, 2)] None \<lparr>nrows = 1, cols = [(''Close'', [Fin 100])]\<rparr> (\<lambda>d. Inr 0))
     = Some (Fin 2)
   \<and> Fin 2 \<noteq> fmul (Fin (reg_end_of [2, 1, 2])) (fpow (fadd (Fin 1) (cagr_of [2, 1, 2])) 10)"
proof -
  have "map_option future_eps
       (analyze_stock [(0::nat, 2), (1, 1), (2, 2)] None \<lparr>nrows = 1, cols = [(''Close'', [Fin 100])]\<rparr> (\<lambda>d. Inr 0))
     = Some (Fin 2)"
    using analyze_stock_future_eps [of "[(0::nat, 2), (1, 1), (2, 2)]" 0] cagr_of_2_1_2
    by simp
  then show ?thesis
    by (simp add: reg_end_of_def polyfit1_2_1_2 cagr_of_2_1_2)
qed

text \<open>
  C3, amended: the fitted line's start and end values enter the growth rate only. The
  earnings base is the latest reported earnings figure, and the 10-year projection
  compounds the growth rate on it: \<open>future_eps = latest * (1 + cagr)^10\<close>.
\<close>

theorem projection_base_is_latest_eps:
  assumes "analyze_stock eps_data trailingPE hist nearest = Some v"
  shows "cagr v = cagr_of (map snd eps_data)
       \<and> base_eps v = snd (last eps_data)
       \<and> (\<exists>c. cagr v = Fin c \<and> future_eps v = Fin (snd (last eps_data) * (1 + c) ^ 10))"
proof -
  obtain c where c: "cagr_of (map snd eps_data) = Fin c"
    using cagr_of_Fin by blast
  have len: "2 \<le> length eps_data"
    using assms by (simp add: analyze_stock_def split: if_splits)
  have "cagr v = cagr_of (map snd eps_data)" and "base_eps v = snd (last eps_data)"
    using assms by (auto simp: analyze_stock_def Let_def split: if_splits)
  moreover have "future_eps v = Fin (snd (last eps_data) * (1 + c) ^ 10)"
    using analyze_stock_future_eps [OF len c, of trailingPE hist nearest] assms by simp
  ultimately show ?thesis using c by simp
qed

theorem projection_base_is_latest_eps_witness:
  "\<exists>v. analyze_stock [(0::nat, 2), (1, 1), (2, 2)] None \<lparr>nrows = 1, cols = [(''Close'', [Fin 100])]\<rparr> (\<lambda>d. Inr 0) = Some v
     \<and> base_eps v = 2 \<and> future_eps v = Fin 2"
proof -
  obtain v where v:
    "analyze_stock [(0::nat, 2), (1, 1), (2, 2)] None \<lparr>nrows = 1, cols = [(''Close'', [Fin 100])]\<rparr> (\<lambda>d. Inr 0) = Some v"
    by (simp add: analyze_stock_def Let_def)
  from projection_base_is_latest_eps [OF v] show ?thesis
    using v by (auto simp: cagr_of_2_1_2)
qed

subsection \<open>Projected multiple\<close>

text \<open>
  C10: the loop of lines 97 to 111 appends no multiple exactly when no earnings date
  yields one (earnings not positive, no price found, or a multiple outside (0, 150)).
  Then the historical average P/E is the current P/E, and the projected multiple is the
  current P/E raised to 5 when below it, Python's \<open>max(current_pe, 5)\<close>.
\<close>

theorem no_historical_pe_defaults_to_current:
  assumes "analyze_stock eps_data trailingPE hist nearest = Some v"
  shows "(pe_ratios v = [] \<longleftrightarrow> (\<forall>e\<in>set eps_data. pe_at hist nearest e = []))
       \<and> (pe_ratios v = [] \<longrightarrow>
            avg_pe v = current_pe v \<and> projected_pe v = py_max (current_pe v) (Fin 5))"
  using assms
  by (auto simp: analyze_stock_def Let_def py_min_def py_max_def split: if_splits)

text \<open>
  Earnings 1 and 2 at a price of 1000: the multiples 1000 and 500 are outside (0, 150),
  none is kept, and a trailing P/E of 3 gives the projected multiple 5.
\<close>

theorem no_historical_pe_defaults_to_current_witness:
  "\<exists>v. analyze_stock [(0::nat, 1), (1, 2)] (Some (Fin 3))
          \<lparr>nrows = 1, cols = [(''Close'', [Fin 1000])]\<rparr> (\<lambda>d. Inr 0) = Some v
     \<and> pe_ratios v = [] \<and> current_pe v = Fin 3 \<and> avg_pe v = Fin 3 \<and> projected_pe v = Fin 5"
proof -
  let ?hist = "\<lparr>nrows = 1, cols = [(''Close'', [Fin 1000])]\<rparr>"
  obtain v where v:
    "analyze_stock [(0::nat, 1), (1, 2)] (Some (Fin 3)) ?hist (\<lambda>d. Inr 0) = Some v"
    by (simp add: analyze_stock_def Let_def)
  have e: "\<forall>e\<in>set [(0::nat, 1::real), (1, 2)]. pe_at ?hist (\<lambda>d. Inr 0) e = []"
    by (simp add: pe_at_def getitem_def iloc_def)
  have c: "current_pe v = Fin 3"
    using v by (auto simp: analyze_stock_def Let_def current_pe_of_def)
  from no_historical_pe_defaults_to_current [OF v] e
  have "pe_ratios v = []" and "avg_pe v = current_pe v"
    and "projected_pe v = py_max (current_pe v) (Fin 5)"
    by blast+
  with v c show ?thesis by (simp add: py_max_def)
qed

section \<open>Properties of the shortlist\<close>

subsection \<open>Exit target\<close>

lemma abs_bound_hi: "\<bar>x - y\<bar> \<le> e \<Longrightarrow> x \<le> y + (e::real)"
  by (simp add: abs_le_iff)

lemma abs_bound_lo: "\<bar>x - y\<bar> \<le> e \<Longrightarrow> y - e \<le> (x::real)"
  by (simp add: abs_le_iff)

lemma abs_bound_I: "x \<le> y + e \<Longrightarrow> y - e \<le> (x::real) \<Longrightarrow> \<bar>x - y\<bar> \<le> e"
  by (simp add: abs_le_iff)

lemma rne_err: "\<bar>of_int (rne y) - y\<bar> \<le> 1 / 2"
  unfolding rne_def Let_def by (auto simp: abs_le_iff)

lemma rne_nonneg: "0 \<le> y \<Longrightarrow> 0 \<le> rne y"
  unfolding rne_def Let_def by (auto simp: add_nonneg_nonneg)

lemma ulp64_pos: "0 < ulp64 x"
  by (simp add: ulp64_def)

lemma ulp64_eq:
  assumes "2 powi e \<le> \<bar>x\<bar>" and "\<bar>x\<bar> < 2 powi (e + 1)" and "- 1022 \<le> e"
  shows "ulp64 x = 2 powi (e - 52)"
proof -
  have "(0::real) < 2 powi e" by simp
  with assms(1) have pos: "0 < \<bar>x\<bar>" by linarith
  have "2 powr real_of_int e = (2::real) powi e"
    and "2 powr (real_of_int e + 1) = (2::real) powi (e + 1)"
    using powr_real_of_int' [of "2::real" e] powr_real_of_int' [of "2::real" "e + 1"]
    by simp_all
  then have "\<lfloor>log 2 \<bar>x\<bar>\<rfloor> = e"
    using assms(1,2) pos by (simp add: floor_log_eq_powr_iff)
  then show ?thesis using assms(3) by (simp add: ulp64_def)
qed

lemma fl64_eq:
  assumes "2 powi e \<le> \<bar>x\<bar>" and "\<bar>x\<bar> < 2 powi (e + 1)" and "- 1022 \<le> e"
  shows "fl64 x = of_int (rne (x / 2 powi (e - 52))) * 2 powi (e - 52)"
proof -
  have "(0::real) < 2 powi e" by simp
  with assms(1) have "0 < \<bar>x\<bar>" by linarith
  then have "x \<noteq> 0" by simp
  then show ?thesis by (simp add: fl64_def ulp64_eq [OF assms])
qed

lemma fl64_tenth: "fl64 (1 / 10) = 3602879701896397 / 36028797018963968"
  by (subst fl64_eq [where e = "- 4"]) (simp_all add: rne_def Let_def)

lemma fl64_b: "fl64 (39631676720860365 / 36028797018963968) = 2476979795053773 / 2251799813685248"
  by (subst fl64_eq [where e = 0]) (simp_all add: rne_def Let_def)

lemma fl64_c: "fl64 (3 / 100) = 1080863910568919 / 36028797018963968"
  by (subst fl64_eq [where e = "- 6"]) (simp_all add: rne_def Let_def)

lemma fl64_s:
  "fl64 (40712540631429287 / 36028797018963968) = 5089067578928661 / 4503599627370496"
  by (subst fl64_eq [where e = 0]) (simp_all add: rne_def Let_def)

lemma fl64_t:
  "fl64 (127226689473216525 / 1125899906842624) = 7951668092076033 / 70368744177664"
  by (subst fl64_eq [where e = 6]) (simp_all add: rne_def Let_def)

lemma target_100_m10:
  "target_price \<lparr>Symbol = ''X'', RSI = Fin 20, Dist = Fin (- 10), Price = Fin 100,
      S_Bull = True, RS_Trend = Fin 0\<rparr> = Fin (7951668092076033 / 70368744177664)"
  by (simp add: target_price_def rnd_def fl64_tenth fl64_b fl64_c fl64_s fl64_t)

lemma target_100_m10_value: "(7951668092076033 / 70368744177664 :: real) = 113 + 1 / 2 ^ 46"
  by simp

lemma hundredths_100_m10: "hundredths (7951668092076033 / 70368744177664) = 11300"
  by (simp add: hundredths_def rne_def Let_def)


lemma fl64_err: "\<bar>fl64 x - x\<bar> \<le> ulp64 x / 2"
proof (cases "x = 0")
  case True
  then show ?thesis using ulp64_pos [of x] by (simp add: fl64_def)
next
  case False
  define U where "U = ulp64 x"
  have U: "0 < U" unfolding U_def by (rule ulp64_pos)
  have "fl64 x - x = U * (of_int (rne (x / U)) - x / U)"
    using False U by (simp add: fl64_def U_def algebra_simps)
  then have "\<bar>fl64 x - x\<bar> = U * \<bar>of_int (rne (x / U)) - x / U\<bar>"
    using U by (simp add: abs_mult)
  also have "\<dots> \<le> U * (1 / 2)"
    using U rne_err [of "x / U"] by (intro mult_left_mono) auto
  finally show ?thesis by (simp add: U_def)
qed

lemma ulp64_le:
  assumes "x \<noteq> 0"
  shows "ulp64 x \<le> max \<bar>x\<bar> (2 powi (- 1022)) / 2 ^ 52"
proof (cases "\<lfloor>log 2 \<bar>x\<bar>\<rfloor> \<le> - 1022")
  case True
  then have "ulp64 x = 2 powi (- 1022 - 52)"
    by (simp add: ulp64_def max_def)
  also have "\<dots> = 2 powi (- 1022) / 2 ^ 52"
    by (subst power_int_diff) simp_all
  also have "\<dots> \<le> max \<bar>x\<bar> (2 powi (- 1022)) / 2 ^ 52"
    by (intro divide_right_mono) auto
  finally show ?thesis .
next
  case False
  define e where "e = \<lfloor>log 2 \<bar>x\<bar>\<rfloor>"
  have pos: "0 < \<bar>x\<bar>" using assms by simp
  have "2 powr real_of_int e \<le> \<bar>x\<bar>"
    using floor_log_eq_powr_iff [of "\<bar>x\<bar>" 2 e] pos by (simp add: e_def)
  then have le: "2 powi e \<le> \<bar>x\<bar>"
    using powr_real_of_int' [of "2::real" e] by simp
  have "ulp64 x = 2 powi (e - 52)"
    using False by (simp add: ulp64_def e_def max_def)
  also have "\<dots> = 2 powi e / 2 ^ 52"
    by (subst power_int_diff) simp_all
  also have "\<dots> \<le> max \<bar>x\<bar> (2 powi (- 1022)) / 2 ^ 52"
    using le by (intro divide_right_mono) auto
  finally show ?thesis .
qed

lemma fl64_err_bound: "\<bar>fl64 x - x\<bar> \<le> max \<bar>x\<bar> (2 powi (- 1022)) / 2 ^ 53"
proof (cases "x = 0")
  case True
  then show ?thesis by (simp add: fl64_def)
next
  case False
  have "\<bar>fl64 x - x\<bar> \<le> ulp64 x / 2" by (rule fl64_err)
  also have "\<dots> \<le> (max \<bar>x\<bar> (2 powi (- 1022)) / 2 ^ 52) / 2"
    using ulp64_le [OF False] by (intro divide_right_mono) auto
  finally show ?thesis by simp
qed

lemma fl64_rel:
  assumes "2 powi (- 1022) \<le> \<bar>x\<bar>"
  shows "\<bar>fl64 x - x\<bar> \<le> \<bar>x\<bar> / 2 ^ 53"
proof -
  have "max \<bar>x\<bar> (2 powi (- 1022)) = \<bar>x\<bar>"
    using assms by (rule max_absorb1)
  with fl64_err_bound [of x] show ?thesis by (simp only:)
qed

lemma fl64_nonneg: "0 \<le> x \<Longrightarrow> 0 \<le> fl64 x"
  using ulp64_pos [of x] rne_nonneg [of "x / ulp64 x"] by (simp add: fl64_def)

lemma rnd_Fin: "\<bar>fl64 a\<bar> < 2 ^ 1024 \<Longrightarrow> rnd (Fin a) = Fin (fl64 a)"
  by (auto simp: rnd_def abs_less_iff)

lemma tiny_le_1: "(2::real) powi (- 1022) \<le> 1 / 4"
  by (simp add: power_int_minus inverse_eq_divide)


lemma fl64_near:
  assumes "max \<bar>x\<bar> (2 powi (- 1022)) \<le> B"
  shows "\<bar>fl64 x - x\<bar> \<le> B / 9007199254740992"
proof -
  have n: "(2::real) ^ 53 = 9007199254740992" by simp
  have "\<bar>fl64 x - x\<bar> \<le> max \<bar>x\<bar> (2 powi (- 1022)) / 2 ^ 53"
    by (rule fl64_err_bound)
  also have "\<dots> \<le> B / 2 ^ 53"
    using assms by (intro divide_right_mono) auto
  finally show ?thesis by (simp only: n)
qed

lemma fl64_normal:
  assumes "2 powi (- 1022) \<le> \<bar>x\<bar>"
  shows "\<bar>fl64 x - x\<bar> \<le> \<bar>x\<bar> / 9007199254740992"
proof -
  have "max \<bar>x\<bar> (2 powi (- 1022)) \<le> \<bar>x\<bar>" using assms by simp
  then show ?thesis by (rule fl64_near)
qed

lemma tiny_le_quarter: "(2::real) powi (- 1022) \<le> 2 powi (- 500) / 4"
  by (simp add: power_int_minus inverse_eq_divide)

lemma K_bounds: "(1::real) \<le> 2 ^ 500" "36 * ((2::real) ^ 500 * 2 ^ 500) < 2 ^ 1024"
  by simp_all

lemma target_price_near_exact:
  assumes P: "Price s = Fin p" and D: "Dist s = Fin d"
    and d: "\<bar>d\<bar> \<le> 2 ^ 500" and p1: "2 powi (- 500) \<le> \<bar>p\<bar>" and p2: "\<bar>p\<bar> \<le> 2 ^ 500"
  shows "\<exists>t. target_price s = Fin t
           \<and> \<bar>t - p * (1 + \<bar>d\<bar> / 100 + 3 / 100)\<bar>
               \<le> \<bar>p * (1 + \<bar>d\<bar> / 100 + 3 / 100)\<bar> / 2 ^ 50"
proof -
  define K :: real where "K = 2 ^ 500"
  define B :: real where "B = 2 ^ 1024"
  define m :: real where "m = 2 powi (- 1022)"
  define k :: real where "k = 2 powi (- 500)"
  define a where "a = \<bar>d\<bar> / 100"
  define a1 where "a1 = fl64 a"
  define b1 where "b1 = fl64 (1 + a1)"
  define c where "c = fl64 (3 / 100)"
  define s1 where "s1 = fl64 (b1 + c)"
  define t1 where "t1 = fl64 (p * s1)"
  define E where "E = 1 + a + 3 / 100"
  define X where "X = \<bar>p\<bar> * E"
  define Y where "Y = \<bar>p\<bar> * s1"
  define Q where "Q = K * K"
  define T where "T = \<bar>t1\<bar>"
  define U where "U = \<bar>t1 - p * s1\<bar>"
  define V where "V = \<bar>p * s1 - p * E\<bar>"
  define W where "W = \<bar>t1 - p * E\<bar>"
  have K1: "1 \<le> K" and KK: "36 * Q < B"
    unfolding K_def B_def Q_def by (rule K_bounds)+
  have KQ: "K \<le> Q" unfolding Q_def using K1 by simp
  have m4: "m \<le> 1 / 4" unfolding m_def by (rule tiny_le_1)
  then have m1: "m \<le> 1" by simp
  have mk: "m \<le> k / 4" unfolding m_def k_def by (rule tiny_le_quarter)
  have k0: "0 < k" unfolding k_def by simp
  have pk: "k \<le> \<bar>p\<bar>" and pK: "\<bar>p\<bar> \<le> K"
    using p1 p2 by (simp_all only: k_def K_def)
  have "\<bar>d\<bar> \<le> K" using d by (simp only: K_def)
  then have a0: "0 \<le> a" and aK: "a \<le> K"
    by (simp_all add: a_def)
  have c_val: "c = 1080863910568919 / 36028797018963968"
    unfolding c_def by (rule fl64_c)
  have c0: "0 < c" unfolding c_val by simp
  have ha: "max \<bar>a\<bar> m \<le> a + 1" using a0 m1 by (simp add: max_def)
  have ea: "\<bar>a1 - a\<bar> \<le> (a + 1) / 9007199254740992"
    unfolding a1_def by (rule fl64_near [OF ha [unfolded m_def]])
  have a1_0: "0 \<le> a1" unfolding a1_def using a0 by (rule fl64_nonneg)
  have pa: "\<bar>a1\<bar> = a1" using a1_0 by simp
  have pb: "\<bar>1 + a1\<bar> = 1 + a1" using a1_0 by simp
  have hb: "m \<le> \<bar>1 + a1\<bar>" unfolding pb using a1_0 m1 by simp
  have "\<bar>b1 - (1 + a1)\<bar> \<le> \<bar>1 + a1\<bar> / 9007199254740992"
    unfolding b1_def by (rule fl64_normal [OF hb [unfolded m_def]])
  then have eb: "\<bar>b1 - (1 + a1)\<bar> \<le> (1 + a1) / 9007199254740992"
    by (simp only: pb)
  have b1_lo: "1 / 2 \<le> b1" using abs_bound_lo [OF eb] a1_0 by (simp add: field_simps)
  have pc: "\<bar>b1 + c\<bar> = b1 + c" using b1_lo c0 by simp
  have hs: "m \<le> \<bar>b1 + c\<bar>" unfolding pc using b1_lo c0 m4 by simp
  have "\<bar>s1 - (b1 + c)\<bar> \<le> \<bar>b1 + c\<bar> / 9007199254740992"
    unfolding s1_def by (rule fl64_normal [OF hs [unfolded m_def]])
  then have es: "\<bar>s1 - (b1 + c)\<bar> \<le> (b1 + c) / 9007199254740992"
    by (simp only: pc)
  have s1_lo: "1 / 4 \<le> s1" using abs_bound_lo [OF es] b1_lo c0 by (simp add: field_simps)
  have sE: "\<bar>s1 - E\<bar> \<le> 4 * E / 9007199254740992"
  proof (rule abs_bound_I)
    show "s1 \<le> E + 4 * E / 9007199254740992"
      using abs_bound_hi [OF ea] abs_bound_hi [OF eb] abs_bound_hi [OF es] a0
      unfolding E_def c_val by (simp add: field_simps)
    show "E - 4 * E / 9007199254740992 \<le> s1"
      using abs_bound_lo [OF ea] abs_bound_lo [OF eb] abs_bound_lo [OF es] a0
      unfolding E_def c_val by (simp add: field_simps)
  qed
  have E0: "0 < E" unfolding E_def using a0 by simp
  have s1_hi: "s1 \<le> 18 * K"
    using abs_bound_hi [OF sE] aK K1 unfolding E_def by (simp add: field_simps)
  have X0: "0 \<le> X" unfolding X_def using E0 by simp
  have Y_eq: "\<bar>p * s1\<bar> = Y" unfolding Y_def using s1_lo by (simp add: abs_mult)
  have "k * (1 / 4) \<le> \<bar>p\<bar> * s1"
    using pk s1_lo k0 by (intro mult_mono) auto
  then have ht: "m \<le> \<bar>p * s1\<bar>" using mk Y_eq by (simp add: Y_def)
  have "\<bar>t1 - p * s1\<bar> \<le> \<bar>p * s1\<bar> / 9007199254740992"
    unfolding t1_def by (rule fl64_normal [OF ht [unfolded m_def]])
  then have et: "U \<le> Y / 9007199254740992"
    by (simp only: Y_eq U_def)
  have "\<bar>p\<bar> * s1 \<le> K * (18 * K)"
    using pK s1_hi s1_lo by (intro mult_mono) auto
  then have Y_hi: "Y \<le> 18 * Q" by (simp add: Y_def Q_def)
  have Y0: "0 \<le> Y" using Y_eq by (metis abs_ge_zero)
  have "a1 < B" using abs_bound_hi [OF ea] aK K1 KQ KK by (simp add: field_simps)
  then have "\<bar>a1\<bar> < B" by (simp only: pa)
  then have ra: "rnd (Fin a) = Fin a1"
    unfolding a1_def B_def by (rule rnd_Fin)
  have "b1 < B"
    using abs_bound_hi [OF eb] abs_bound_hi [OF ea] aK K1 KQ KK by (simp add: field_simps)
  then have "\<bar>b1\<bar> < B" using b1_lo by simp
  then have rb: "rnd (Fin (1 + a1)) = Fin b1"
    unfolding b1_def B_def by (rule rnd_Fin)
  have "c < B" using K1 KQ KK unfolding c_val by (simp add: field_simps)
  then have "\<bar>c\<bar> < B" using c0 by simp
  then have rc: "rnd (Fin (3 / 100)) = Fin c"
    unfolding c_def B_def by (rule rnd_Fin)
  have "s1 < B" using s1_hi K1 KQ KK by (simp add: field_simps)
  then have "\<bar>s1\<bar> < B" using s1_lo by simp
  then have rs: "rnd (Fin (b1 + c)) = Fin s1"
    unfolding s1_def B_def by (rule rnd_Fin)
  have "T \<le> U + Y"
    unfolding T_def U_def Y_eq [symmetric]
    using abs_triangle_ineq [of "t1 - p * s1" "p * s1"] by simp
  then have "T < B" using et Y_hi Y0 KK by (simp add: field_simps)
  then have rt: "rnd (Fin (p * s1)) = Fin t1"
    unfolding t1_def B_def T_def by (rule rnd_Fin)
  have "target_price s =
          rnd (fmul (Fin p) (rnd (fadd (rnd (fadd (Fin 1) (rnd (Fin a)))) (rnd (Fin (3 / 100))))))"
    by (simp add: target_price_def P D a_def)
  also have "\<dots> = Fin t1"
    by (simp only: ra rb rc rs rt fadd.simps fmul.simps)
  finally have tp: "target_price s = Fin t1" .
  have i1: "V = \<bar>p\<bar> * \<bar>s1 - E\<bar>"
    unfolding V_def by (simp add: abs_mult flip: right_diff_distrib)
  have i2: "\<bar>p\<bar> * (4 * E / 9007199254740992) = 4 * X / 9007199254740992"
    by (simp add: X_def)
  have "\<bar>p\<bar> * \<bar>s1 - E\<bar> \<le> \<bar>p\<bar> * (4 * E / 9007199254740992)"
    using sE by (intro mult_left_mono) auto
  then have d1: "V \<le> 4 * X / 9007199254740992"
    by (simp only: i1 i2)
  have "s1 \<le> E + 4 * E / 9007199254740992" by (rule abs_bound_hi [OF sE])
  then have "\<bar>p\<bar> * s1 \<le> \<bar>p\<bar> * (E + 4 * E / 9007199254740992)"
    by (intro mult_left_mono) auto
  moreover have "\<bar>p\<bar> * (E + 4 * E / 9007199254740992) = X + 4 * X / 9007199254740992"
    by (simp add: X_def algebra_simps)
  ultimately have d2: "Y \<le> X + 4 * X / 9007199254740992"
    by (simp only: Y_def)
  have "W \<le> U + V"
    unfolding W_def U_def V_def
    using abs_triangle_ineq [of "t1 - p * s1" "p * s1 - p * E"] by simp
  then have "W \<le> X / 1125899906842624"
    using et d1 d2 X0 by (simp add: field_simps)
  moreover have "\<bar>p * E\<bar> = X" unfolding X_def using E0 by (simp add: abs_mult)
  moreover have "(2::real) ^ 50 = 1125899906842624" by simp
  ultimately have "\<bar>t1 - p * E\<bar> \<le> \<bar>p * E\<bar> / 2 ^ 50" by (simp only: W_def)
  with tp show ?thesis unfolding E_def a_def by blast
qed

text \<open>
  C9, as stated, fails: for distance -10 and price 100, line 99 gives the float64 number
  \<open>113 + 2^-46\<close> (113.00000000000001), not 113.
\<close>

theorem exit_target_113_counterexample:
  "target_price \<lparr>Symbol = ''X'', RSI = Fin 20, Dist = Fin (- 10), Price = Fin 100,
      S_Bull = True, RS_Trend = Fin 0\<rparr> = Fin (113 + 1 / 2 ^ 46)
   \<and> target_price \<lparr>Symbol = ''X'', RSI = Fin 20, Dist = Fin (- 10), Price = Fin 100,
      S_Bull = True, RS_Trend = Fin 0\<rparr> \<noteq> Fin 113"
  by (simp add: target_100_m10)

text \<open>
  C9, amended: for a ranked row with a finite price \<open>p\<close> and distance \<open>d\<close>
  (\<open>2^-500 \<le> |p| \<le> 2^500\<close>, \<open>|d| \<le> 2^500\<close>), the exit target is a finite
  float64 number within a relative \<open>2^-50\<close> of \<open>p * (1 + |d|/100 + 0.03)\<close>. For
  \<open>d = -10\<close> and \<open>p = 100\<close> it is \<open>113 + 2^-46\<close>, which line 105 prints, to
  two decimals, as 113.00.
\<close>

theorem exit_target_float64:
  "(Price s = Fin p \<and> Dist s = Fin d \<and> \<bar>d\<bar> \<le> 2 ^ 500
      \<and> 2 powi (- 500) \<le> \<bar>p\<bar> \<and> \<bar>p\<bar> \<le> 2 ^ 500 \<longrightarrow>
      (\<exists>t. target_price s = Fin t
         \<and> \<bar>t - p * (1 + \<bar>d\<bar> / 100 + 3 / 100)\<bar>
             \<le> \<bar>p * (1 + \<bar>d\<bar> / 100 + 3 / 100)\<bar> / 2 ^ 50))
   \<and> target_price \<lparr>Symbol = ''X'', RSI = Fin 20, Dist = Fin (- 10), Price = Fin 100,
        S_Bull = True, RS_Trend = Fin 0\<rparr> = Fin (113 + 1 / 2 ^ 46)
   \<and> hundredths (113 + 1 / 2 ^ 46) = 11300"
proof (intro conjI impI)
  assume "Price s = Fin p \<and> Dist s = Fin d \<and> \<bar>d\<bar> \<le> 2 ^ 500
      \<and> 2 powi (- 500) \<le> \<bar>p\<bar> \<and> \<bar>p\<bar> \<le> 2 ^ 500"
  then show "\<exists>t. target_price s = Fin t
         \<and> \<bar>t - p * (1 + \<bar>d\<bar> / 100 + 3 / 100)\<bar>
             \<le> \<bar>p * (1 + \<bar>d\<bar> / 100 + 3 / 100)\<bar> / 2 ^ 50"
    by (elim conjE) (rule target_price_near_exact)
next
  show "target_price \<lparr>Symbol = ''X'', RSI = Fin 20, Dist = Fin (- 10), Price = Fin 100,
        S_Bull = True, RS_Trend = Fin 0\<rparr> = Fin (113 + 1 / 2 ^ 46)"
    by (simp only: target_100_m10 target_100_m10_value)
next
  show "hundredths (113 + 1 / 2 ^ 46) = 11300"
    using hundredths_100_m10 by (simp only: target_100_m10_value)
qed

text \<open>
  The row with price 100 and distance -10 is in range; its target \<open>113 + 2^-46\<close> is
  within \<open>113 / 2^50\<close> of 113.
\<close>

theorem exit_target_float64_witness:
  "\<exists>t. target_price \<lparr>Symbol = ''X'', RSI = Fin 20, Dist = Fin (- 10), Price = Fin 100,
        S_Bull = True, RS_Trend = Fin 0\<rparr> = Fin t
     \<and> t = 113 + 1 / 2 ^ 46
     \<and> \<bar>t - 113\<bar> \<le> 113 / 2 ^ 50
     \<and> hundredths t = 11300"
proof -
  let ?s = "\<lparr>Symbol = ''X'', RSI = Fin 20, Dist = Fin (- 10), Price = Fin 100,
        S_Bull = True, RS_Trend = Fin 0\<rparr>"
  have r: "Price ?s = Fin 100 \<and> Dist ?s = Fin (- 10) \<and> \<bar>- 10 :: real\<bar> \<le> 2 ^ 500
      \<and> 2 powi (- 500) \<le> \<bar>100 :: real\<bar> \<and> \<bar>100 :: real\<bar> \<le> 2 ^ 500"
    by (simp add: power_int_minus inverse_eq_divide)
  from exit_target_float64 [of ?s 100 "- 10"] r
  obtain t where t: "target_price ?s = Fin t"
    and e: "\<bar>t - 100 * (1 + \<bar>- 10 :: real\<bar> / 100 + 3 / 100)\<bar>
             \<le> \<bar>100 * (1 + \<bar>- 10 :: real\<bar> / 100 + 3 / 100)\<bar> / 2 ^ 50"
    by blast
  from exit_target_float64 [of ?s 100 "- 10"]
  have v: "target_price ?s = Fin (113 + 1 / 2 ^ 46)"
    and h: "hundredths (113 + 1 / 2 ^ 46) = 11300"
    by blast+
  from t v have tv: "t = 113 + 1 / 2 ^ 46" by simp
  from e have e': "\<bar>t - 113\<bar> \<le> 113 / 2 ^ 50" by simp
  from h have h': "hundredths t = 11300" by (simp only: tv)
  from t tv e' h' show ?thesis by blast
qed

lemma rsi_before_total: "rsi_before a b \<or> rsi_before b a"
  by (cases a; cases b) (auto simp: rsi_before_def)

lemma rsi_before_trans: "rsi_before a b \<Longrightarrow> rsi_before b c \<Longrightarrow> rsi_before a c"
  by (cases a; cases b; cases c) (auto simp: rsi_before_def)

lemma set_insert_by_rsi: "set (insert_by_rsi r xs) = insert r (set xs)"
  by (induction xs) auto

lemma length_insert_by_rsi: "length (insert_by_rsi r xs) = Suc (length xs)"
  by (induction xs) auto

lemma sorted_insert_by_rsi:
  assumes "sorted_wrt (\<lambda>a b. rsi_before (RSI a) (RSI b)) xs"
  shows "sorted_wrt (\<lambda>a b. rsi_before (RSI a) (RSI b)) (insert_by_rsi r xs)"
  using assms
proof (induction xs)
  case Nil
  then show ?case by simp
next
  case (Cons x xs)
  show ?case
  proof (cases "rsi_before (RSI r) (RSI x)")
    case True
    with Cons.prems show ?thesis
      by (auto intro: rsi_before_trans)
  next
    case False
    then have "rsi_before (RSI x) (RSI r)"
      using rsi_before_total by blast
    with False Cons show ?thesis
      by (auto simp: set_insert_by_rsi)
  qed
qed

lemma sort_values_rsi_Cons: "sort_values_rsi (r # rs) = insert_by_rsi r (sort_values_rsi rs)"
  by (simp add: sort_values_rsi_def)

lemma sort_values_rsi_Nil: "sort_values_rsi [] = []"
  by (simp add: sort_values_rsi_def)

lemma set_sort_values_rsi: "set (sort_values_rsi rs) = set rs"
  by (induction rs) (simp_all add: sort_values_rsi_Nil sort_values_rsi_Cons set_insert_by_rsi)

lemma length_sort_values_rsi: "length (sort_values_rsi rs) = length rs"
  by (induction rs) (simp_all add: sort_values_rsi_Nil sort_values_rsi_Cons length_insert_by_rsi)

lemma sorted_sort_values_rsi:
  "sorted_wrt (\<lambda>a b. rsi_before (RSI a) (RSI b)) (sort_values_rsi rs)"
  by (induction rs) (simp_all add: sort_values_rsi_Nil sort_values_rsi_Cons sorted_insert_by_rsi)

lemma sorted_take: "sorted_wrt P xs \<Longrightarrow> sorted_wrt P (take n xs)"
  by (metis append_take_drop_id sorted_wrt_append)

text \<open>
  C8: whenever line 90 yields a shortlist, it has at most 10 rows (10, or all of them when
  there are fewer), all of them rows of the scan, in ascending order of RSI with \<open>NaN\<close>
  last; when no RSI is \<open>NaN\<close>, as for rows that come out of \<open>dropna\<close>, that is
  ascending order of the numbers. Every scan with at least one row yields a shortlist.
\<close>

theorem shortlist_sorted_top10:
  "(rs \<noteq> [] \<longrightarrow> (\<exists>out. s_df rs = Inr out))
   \<and> (\<forall>out. s_df rs = Inr out \<longrightarrow>
         length out \<le> 10 \<and> length out = min 10 (length rs) \<and> set out \<subseteq> set rs
         \<and> sorted_wrt (\<lambda>a b. rsi_before (RSI a) (RSI b)) out
         \<and> ((\<forall>r\<in>set rs. RSI r \<noteq> NaN) \<longrightarrow> sorted_wrt (\<lambda>a b. fle (RSI a) (RSI b)) out))"
proof (intro conjI allI impI)
  assume "rs \<noteq> []"
  then show "\<exists>out. s_df rs = Inr out" by (simp add: s_df_def)
next
  fix out
  assume "s_df rs = Inr out"
  then have out: "out = take 10 (sort_values_rsi rs)"
    by (simp add: s_df_def split: if_splits)
  show "length out \<le> 10" by (simp add: out)
  show "length out = min 10 (length rs)"
    by (simp add: out length_sort_values_rsi min.commute)
  show sub: "set out \<subseteq> set rs"
    unfolding out using set_take_subset [of 10 "sort_values_rsi rs"]
    by (simp add: set_sort_values_rsi)
  show s: "sorted_wrt (\<lambda>a b. rsi_before (RSI a) (RSI b)) out"
    unfolding out by (rule sorted_take) (rule sorted_sort_values_rsi)
  assume "\<forall>r\<in>set rs. RSI r \<noteq> NaN"
  with sub have h: "fle (RSI a) (RSI b)"
    if "a \<in> set out" "b \<in> set out" "rsi_before (RSI a) (RSI b)" for a b
    using that by (auto simp: rsi_before_def)
  show "sorted_wrt (\<lambda>a b. fle (RSI a) (RSI b)) out"
    by (rule sorted_wrt_mono_rel [OF _ s]) (blast intro: h)
qed

text \<open>Two rows with RSI 30 and 20 come out as 20, 30.\<close>

theorem shortlist_sorted_top10_witness:
  "\<exists>out. s_df [\<lparr>Symbol = ''A'', RSI = Fin 30, Dist = Fin 1, Price = Fin 10, S_Bull = True, RS_Trend = Fin 0\<rparr>,
               \<lparr>Symbol = ''B'', RSI = Fin 20, Dist = Fin 1, Price = Fin 10, S_Bull = True, RS_Trend = Fin 0\<rparr>]
          = Inr out
     \<and> map Symbol out = [''B'', ''A'']
     \<and> length out = 2
     \<and> sorted_wrt (\<lambda>a b. fle (RSI a) (RSI b)) out"
proof -
  let ?rs = "[\<lparr>Symbol = ''A'', RSI = Fin 30, Dist = Fin 1, Price = Fin 10, S_Bull = True, RS_Trend = Fin 0\<rparr>,
               \<lparr>Symbol = ''B'', RSI = Fin 20, Dist = Fin 1, Price = Fin 10, S_Bull = True, RS_Trend = Fin 0\<rparr>]"
  obtain out where out: "s_df ?rs = Inr out" and sym: "map Symbol out = [''B'', ''A'']"
    by (simp add: s_df_def sort_values_rsi_def rsi_before_def)
  have n: "\<forall>r\<in>set ?rs. RSI r \<noteq> NaN" by simp
  from shortlist_sorted_top10 [of ?rs] out n
  have "length out = min 10 (length ?rs)" and "sorted_wrt (\<lambda>a b. fle (RSI a) (RSI b)) out"
    by blast+
  with out sym show ?thesis by simp
qed

text \<open>With no row at all, line 90 raises and there is no shortlist.\<close>

lemma s_df_empty: "s_df [] = Inl KeyError"
  by (simp add: s_df_def)

section \<open>Properties of the indicator engine\<close>

subsection \<open>Frames\<close>

lemma map_of_set_column:
  "map_of (set_column c s kvs) c' = (if c' = c then Some s else map_of kvs c')"
  by (induction c s kvs rule: set_column.induct) auto

lemma getitem_setitem:
  "getitem (setitem df c s) c' = (if c' = c then Inr s else getitem df c')"
  by (simp add: getitem_def setitem_def map_of_set_column)

lemma nrows_setitem: "nrows (setitem df c s) = nrows df"
  by (simp add: setitem_def)

lemma getitem_dropna:
  "getitem (dropna df) c =
     (case getitem df c of
        Inl e \<Rightarrow> Inl e
      | Inr s \<Rightarrow> Inr (map ((!) s) (filter (row_notna df) [0..<nrows df])))"
  by (simp add: getitem_def dropna_def Let_def map_of_map split: option.splits)

lemma nrows_dropna: "nrows (dropna df) = length (filter (row_notna df) [0..<nrows df])"
  by (simp add: dropna_def Let_def)

lemma row_notna_getitem:
  assumes "row_notna df i" and "getitem df c = Inr s"
  shows "s ! i \<noteq> NaN"
proof -
  from assms(2) have "(c, s) \<in> set (cols df)"
    by (auto simp: getitem_def split: option.splits dest: map_of_SomeD)
  with assms(1) show ?thesis
    by (auto simp: row_notna_def list_all_iff)
qed

lemma getitem_dropna_defined:
  assumes "getitem df c = Inr s"
  shows "\<exists>vs. getitem (dropna df) c = Inr vs \<and> length vs = nrows (dropna df) \<and> NaN \<notin> set vs"
proof -
  have "NaN \<noteq> s ! i" if "row_notna df i" for i
    using row_notna_getitem [OF that assms] by (rule not_sym)
  then show ?thesis
    using assms by (auto simp: getitem_dropna nrows_dropna)
qed

lemma add_indicators_short:
  "empty df \<or> nrows df < 20 \<Longrightarrow> add_indicators df = (Inr DataFrame_empty, df)"
  by (simp add: add_indicators_def)

lemma add_indicators_Inr:
  assumes "\<not> empty df" and "20 \<le> nrows df" and "fst (add_indicators df) = Inr out"
  obtains close df6 where
    "getitem df ''Close'' = Inr close"
    "add_indicators df = (Inr (dropna df6), df6)"
    "nrows df6 = nrows df"
    "getitem df6 ''RSI'' = Inr (rsi close)"
    "\<forall>c\<in>set indicator_columns. \<exists>s. getitem df6 c = Inr s"
    "\<forall>c. c \<notin> set indicator_columns \<longrightarrow> getitem df6 c = getitem df c"
  using assms
  by (auto simp: add_indicators_def Let_def getitem_setitem nrows_setitem indicator_columns_def
           split: sum.splits)

text \<open>
  C7: a frame of fewer than 20 rows gives the empty frame \<open>pd.DataFrame()\<close>. For a
  frame of at least 20 rows (and at least one column), whenever \<open>add_indicators\<close>
  returns a frame, each of the six indicator columns is a column of it and holds no
  \<open>NaN\<close>: the rows of the warm-up windows are gone.
\<close>

theorem add_indicators_rows_defined:
  "(nrows df < 20 \<longrightarrow> fst (add_indicators df) = Inr DataFrame_empty)
   \<and> (\<forall>out. \<not> empty df \<and> 20 \<le> nrows df \<and> fst (add_indicators df) = Inr out \<longrightarrow>
        (\<forall>c\<in>set indicator_columns.
           \<exists>vs. getitem out c = Inr vs \<and> length vs = nrows out \<and> NaN \<notin> set vs))"
proof (intro conjI allI impI)
  assume "nrows df < 20"
  then show "fst (add_indicators df) = Inr DataFrame_empty"
    by (simp add: add_indicators_short)
next
  fix out
  assume a: "\<not> empty df \<and> 20 \<le> nrows df \<and> fst (add_indicators df) = Inr out"
  then obtain close df6 where
    r: "add_indicators df = (Inr (dropna df6), df6)"
    and i: "\<forall>c\<in>set indicator_columns. \<exists>s. getitem df6 c = Inr s"
    by (elim conjE add_indicators_Inr) blast
  from a r have out: "out = dropna df6" by simp
  show "\<forall>c\<in>set indicator_columns.
           \<exists>vs. getitem out c = Inr vs \<and> length vs = nrows out \<and> NaN \<notin> set vs"
    unfolding out using i getitem_dropna_defined by blast
qed

text \<open>
  C5, amended: \<open>add_indicators\<close> leaves a frame of fewer than 20 rows as it is. On a
  longer frame it assigns the six indicator columns to the caller's frame object; the
  number of rows and every other column stay as they were. The result is a function of
  the input, as every definition here is.
\<close>

theorem add_indicators_mutates_frame:
  "(empty df \<or> nrows df < 20 \<longrightarrow> snd (add_indicators df) = df)
   \<and> nrows (snd (add_indicators df)) = nrows df
   \<and> (\<forall>c. c \<notin> set indicator_columns \<longrightarrow> getitem (snd (add_indicators df)) c = getitem df c)
   \<and> (\<forall>out. \<not> empty df \<and> 20 \<le> nrows df \<and> fst (add_indicators df) = Inr out \<longrightarrow>
        (\<forall>c\<in>set indicator_columns. \<exists>s. getitem (snd (add_indicators df)) c = Inr s))"
proof (intro conjI allI impI)
  assume "empty df \<or> nrows df < 20"
  then show "snd (add_indicators df) = df" by (simp add: add_indicators_short)
next
  show "nrows (snd (add_indicators df)) = nrows df"
    by (simp add: add_indicators_def Let_def nrows_setitem split: sum.splits)
next
  fix c assume "c \<notin> set indicator_columns"
  then show "getitem (snd (add_indicators df)) c = getitem df c"
    by (simp add: add_indicators_def Let_def getitem_setitem indicator_columns_def
             split: sum.splits)
next
  fix out
  assume a: "\<not> empty df \<and> 20 \<le> nrows df \<and> fst (add_indicators df) = Inr out"
  then obtain close df6 where
    r: "add_indicators df = (Inr (dropna df6), df6)"
    and i: "\<forall>c\<in>set indicator_columns. \<exists>s. getitem df6 c = Inr s"
    by (elim conjE add_indicators_Inr) blast
  show "\<forall>c\<in>set indicator_columns. \<exists>s. getitem (snd (add_indicators df)) c = Inr s"
    using i by (simp add: r)
qed

subsection \<open>The RSI\<close>

lemma length_diff: "length (diff s) = length s"
  by (cases s) simp_all

lemma length_rolling: "length (rolling w agg s) = length s"
  by (simp add: rolling_def)

lemma nth_prefixes_take: "n \<le> length xs \<Longrightarrow> prefixes xs ! n = take n xs"
proof (induction xs arbitrary: n)
  case (Cons x xs)
  then show ?case by (cases n) simp_all
qed simp

lemma nth_rolling:
  assumes "i < length s"
  shows "rolling w agg s ! i =
           (if Suc i < w then NaN else agg (rev (take w (rev (take (Suc i) s)))))"
proof -
  have "tl (prefixes s) ! i = prefixes s ! Suc i"
    using assms by (simp add: nth_tl)
  also have "\<dots> = take (Suc i) s"
    using assms by (simp add: nth_prefixes_take)
  finally have p: "tl (prefixes s) ! i = take (Suc i) s" .
  have "length (take (Suc i) s) = Suc i"
    using assms by simp
  with p assms show ?thesis
    by (simp add: rolling_def)
qed














lemma length_avg_gain: "length (avg_gain close) = length close"
  by (simp add: avg_gain_def length_rolling length_diff)

lemma length_avg_loss: "length (avg_loss close) = length close"
  by (simp add: avg_loss_def length_rolling length_diff)

lemma length_rsi: "length (rsi close) = length close"
  by (simp add: rsi_def length_avg_gain length_avg_loss)







subsection \<open>Checks on concrete bars\<close>

lemmas eval_defs = add_indicators_def empty_def getitem_def setitem_def dropna_def row_notna_def
  rsi_def avg_gain_def avg_loss_def rsi_of_def rolling_def fmean_def fstd_def fsub_def
  true_range_def nanmax_def Let_def

lemma upt_0_20: "[0..<20] = [0, 1, 2, 3, 4, 5, 6, 7, 8, 9, 10, 11, 12, 13, 14, 15, 16, 17, 18, 19]"
  by code_simp

lemma rising_result:
  "fst (add_indicators rising_bars) =
     Inr \<lparr>nrows = 1, cols =
        [(''High'', [Fin 21]), (''Low'', [Fin 19]), (''Close'', [Fin 20]),
         (''RSI'', [Fin 100]), (''SMA20'', [Fin (21 / 2)]), (''Std'', [Fin (sqrt 35)]),
         (''Lower'', [Fin (21 / 2 - 2 * sqrt 35)]), (''Upper'', [Fin (21 / 2 + 3 * sqrt 35 / 2)]),
         (''ATR'', [Fin 2])]\<rparr>"
  by (simp add: rising_bars_def eval_defs upt_0_20)

lemma rising_columns_after:
  "map fst (cols (snd (add_indicators rising_bars))) =
     [''High'', ''Low'', ''Close'', ''RSI'', ''SMA20'', ''Std'', ''Lower'', ''Upper'', ''ATR'']"
  by (simp add: rising_bars_def add_indicators_def empty_def getitem_def setitem_def Let_def)





text \<open>Nineteen bars give the empty frame; twenty rising bars give one row, with its ATR.\<close>

theorem add_indicators_rows_defined_witness:
  "fst (add_indicators short_bars) = Inr DataFrame_empty
   \<and> (\<exists>out vs. fst (add_indicators rising_bars) = Inr out \<and> nrows out = 1
         \<and> getitem out ''ATR'' = Inr vs \<and> length vs = 1 \<and> NaN \<notin> set vs)"
proof -
  have s: "nrows short_bars < 20" by (simp add: short_bars_def)
  obtain out where out: "fst (add_indicators rising_bars) = Inr out" and n: "nrows out = 1"
    by (simp add: rising_result)
  have r: "\<not> empty rising_bars \<and> 20 \<le> nrows rising_bars \<and> fst (add_indicators rising_bars) = Inr out"
    using out by (simp add: rising_bars_def empty_def)
  have a: "''ATR'' \<in> set indicator_columns" by (simp add: indicator_columns_def)
  from add_indicators_rows_defined [of short_bars] s
  have "fst (add_indicators short_bars) = Inr DataFrame_empty" by blast
  moreover from add_indicators_rows_defined [of rising_bars] r a
  obtain vs where "getitem out ''ATR'' = Inr vs" "length vs = nrows out" "NaN \<notin> set vs"
    by blast
  ultimately show ?thesis using out n by auto
qed

text \<open>
  C5, as stated, fails: after the call on twenty bars, the caller's frame has six more
  columns than before.
\<close>

theorem add_indicators_mutates_counterexample:
  "map fst (cols rising_bars) = [''High'', ''Low'', ''Close'']
   \<and> map fst (cols (snd (add_indicators rising_bars))) =
       [''High'', ''Low'', ''Close'', ''RSI'', ''SMA20'', ''Std'', ''Lower'', ''Upper'', ''ATR'']
   \<and> snd (add_indicators rising_bars) \<noteq> rising_bars"
proof -
  have a: "map fst (cols rising_bars) = [''High'', ''Low'', ''Close'']"
    by (simp add: rising_bars_def)
  have "map fst (cols (snd (add_indicators rising_bars))) \<noteq> map fst (cols rising_bars)"
    unfolding rising_columns_after a by simp
  then have "snd (add_indicators rising_bars) \<noteq> rising_bars" by auto
  with a rising_columns_after show ?thesis by simp
qed

text \<open>The nineteen bars are untouched; the twenty bars keep their closes and gain an RSI.\<close>

theorem add_indicators_mutates_frame_witness:
  "snd (add_indicators short_bars) = short_bars
   \<and> nrows (snd (add_indicators rising_bars)) = 20
   \<and> getitem (snd (add_indicators rising_bars)) ''Close'' = getitem rising_bars ''Close''
   \<and> (\<exists>s. getitem (snd (add_indicators rising_bars)) ''RSI'' = Inr s)"
proof -
  have s: "empty short_bars \<or> nrows short_bars < 20" by (simp add: short_bars_def)
  obtain out where out: "fst (add_indicators rising_bars) = Inr out"
    by (simp add: rising_result)
  have r: "\<not> empty rising_bars \<and> 20 \<le> nrows rising_bars \<and> fst (add_indicators rising_bars) = Inr out"
    using out by (simp add: rising_bars_def empty_def)
  have c: "''Close'' \<notin> set indicator_columns" and i: "''RSI'' \<in> set indicator_columns"
    by (simp_all add: indicator_columns_def)
  have n: "nrows rising_bars = 20" by (simp add: rising_bars_def)
  from add_indicators_mutates_frame [of short_bars] s
  have "snd (add_indicators short_bars) = short_bars" by blast
  moreover from add_indicators_mutates_frame [of rising_bars] n
  have "nrows (snd (add_indicators rising_bars)) = 20" by simp
  moreover from add_indicators_mutates_frame [of rising_bars] c
  have "getitem (snd (add_indicators rising_bars)) ''Close'' = getitem rising_bars ''Close''"
    by blast
  moreover from add_indicators_mutates_frame [of rising_bars] r i
  have "\<exists>s. getitem (snd (add_indicators rising_bars)) ''RSI'' = Inr s" by blast
  ultimately show ?thesis by blast
qed

section \<open>Properties of the regime filter\<close>

lemma iloc_last: "xs \<noteq> [] \<Longrightarrow> iloc xs (- 1) = Inr (last xs)"
proof (cases xs rule: rev_cases)
  case (snoc ys y)
  then show ?thesis by (simp add: iloc_def nth_append)
qed simp

lemma iloc_Nil: "iloc [] i = Inl IndexError"
  by (simp add: iloc_def)

lemma last_rolling:
  assumes "s \<noteq> []"
  shows "last (rolling w agg s) = (if length s < w then NaN else agg (rev (take w (rev s))))"
proof -
  have "rolling w agg s \<noteq> []"
    using assms length_rolling [of w agg s] by auto
  then have "last (rolling w agg s) = rolling w agg s ! (length s - 1)"
    by (simp add: last_conv_nth length_rolling)
  also have "\<dots> = (if length s < w then NaN else agg (rev (take w (rev s))))"
    using assms by (simp add: nth_rolling)
  finally show ?thesis .
qed

lemma above_sma50_value:
  assumes "getitem df ''Close'' = Inr close" and "close \<noteq> []"
  shows "above_sma50 df =
           Inr (if length close < 50 then False
                else flt (fmean (rev (take 50 (rev close)))) (last close))"
proof -
  have "rolling 50 fmean close \<noteq> []"
    using assms(2) length_rolling [of 50 fmean close] by auto
  then show ?thesis
    using assms by (simp add: above_sma50_def iloc_last last_rolling)
qed

text \<open>
  C6: for a series that is not empty the expression of lines 47 and 57 is false below 50
  bars and compares the latest close with the mean of the last 50 closes otherwise
  (\<open>above_sma50_value\<close>). For an empty index series, line 47 raises (\<open>IndexError\<close>
  from \<open>iloc[-1]\<close>, or \<open>KeyError\<close> when the frame has no columns), while the sector
  loop skips an empty frame on line 55 and the sector counts as not bullish.
\<close>

theorem market_filter_empty_raises:
  "market_bullish \<lparr>nrows = 0, cols = [(''Close'', [])]\<rparr> = Inl IndexError
   \<and> market_bullish DataFrame_empty = Inl KeyError
   \<and> sector_bullish_map [(''^CNXIT'', \<lparr>nrows = 0, cols = [(''Close'', [])]\<rparr>)] Map.empty
       = Inr Map.empty
   \<and> is_sec_bull Map.empty ''^CNXIT'' = False"
  by (simp add: market_bullish_def above_sma50_def getitem_def iloc_def DataFrame_empty_def
      empty_def is_sec_bull_def)

end
